theory Spec2Isabelle
  imports Complex_Main
begin

section \<open>Values of the Python program\<close>

text \<open>
  \<^verbatim>\<open>Fat1.py\<close> is a script over Python floats. A float is modelled as an exact real
  number or the value \<open>nan\<close>: \<open>float("nan")\<close> is what \<open>safe_div\<close> hands back by default
  and it flows through all later arithmetic, so it is part of the model.  Rounding,
  overflow and underflow of IEEE doubles are outside the model: every arithmetic
  operation on two numbers returns the exact real result.  With exact results no
  infinity can arise in the script (each division is guarded against a zero divisor),
  so the model has no infinite values.
\<close>

datatype pyfloat = Fl real | NaN

text \<open>The exceptions the operations of the script can raise.\<close>

datatype pyerr = ZeroDivisionError | ValueError

text \<open>
  The result of \<open>**\<close> on two floats is a float or, for a negative base and a
  non-integral exponent, a complex number.
\<close>

datatype pynum = PFloat pyfloat | PComplex complex

text \<open>Sequencing of statements that may raise: the first exception aborts the rest.\<close>

definition pybind :: "pyerr + 'a \<Rightarrow> ('a \<Rightarrow> pyerr + 'b) \<Rightarrow> pyerr + 'b" where
  "pybind m f = (case m of Inl e \<Rightarrow> Inl e | Inr x \<Rightarrow> f x)"

subsection \<open>Float arithmetic and comparisons\<close>

fun float_add :: "pyfloat \<Rightarrow> pyfloat \<Rightarrow> pyfloat" where
  "float_add (Fl x) (Fl y) = Fl (x + y)"
| "float_add _ _ = NaN"

fun float_sub :: "pyfloat \<Rightarrow> pyfloat \<Rightarrow> pyfloat" where
  "float_sub (Fl x) (Fl y) = Fl (x - y)"
| "float_sub _ _ = NaN"

fun float_mul :: "pyfloat \<Rightarrow> pyfloat \<Rightarrow> pyfloat" where
  "float_mul (Fl x) (Fl y) = Fl (x * y)"
| "float_mul _ _ = NaN"

text \<open>
  \<open>a / b\<close>: the divisor is tested against zero before anything else, so \<open>nan / 0.0\<close>
  raises as well; a \<open>nan\<close> divisor is not zero and gives \<open>nan\<close>.
\<close>

fun float_div :: "pyfloat \<Rightarrow> pyfloat \<Rightarrow> pyerr + pyfloat" where
  "float_div a (Fl y) =
     (if y = 0 then Inl ZeroDivisionError
      else (case a of Fl x \<Rightarrow> Inr (Fl (x / y)) | NaN \<Rightarrow> Inr NaN))"
| "float_div a NaN = Inr NaN"

text \<open>Comparisons: every ordered comparison with \<open>nan\<close> is false, \<open>!=\<close> is true.\<close>

fun float_eq :: "pyfloat \<Rightarrow> pyfloat \<Rightarrow> bool" where
  "float_eq (Fl x) (Fl y) = (x = y)"
| "float_eq _ _ = False"

definition float_ne :: "pyfloat \<Rightarrow> pyfloat \<Rightarrow> bool" where
  "float_ne a b = (\<not> float_eq a b)"

fun float_ge :: "pyfloat \<Rightarrow> pyfloat \<Rightarrow> bool" where
  "float_ge (Fl x) (Fl y) = (x \<ge> y)"
| "float_ge _ _ = False"

fun float_gt :: "pyfloat \<Rightarrow> pyfloat \<Rightarrow> bool" where
  "float_gt (Fl x) (Fl y) = (x > y)"
| "float_gt _ _ = False"

fun float_lt :: "pyfloat \<Rightarrow> pyfloat \<Rightarrow> bool" where
  "float_lt (Fl x) (Fl y) = (x < y)"
| "float_lt _ _ = False"

fun float_abs :: "pyfloat \<Rightarrow> pyfloat" where
  "float_abs (Fl x) = Fl \<bar>x\<bar>"
| "float_abs NaN = NaN"

subsection \<open>The \<open>math\<close> module\<close>

text \<open>\<open>math.sqrt\<close> and \<open>math.log10\<close> raise \<open>ValueError\<close> outside their domain.\<close>

fun math_sqrt :: "pyfloat \<Rightarrow> pyerr + pyfloat" where
  "math_sqrt (Fl x) = (if x < 0 then Inl ValueError else Inr (Fl (sqrt x)))"
| "math_sqrt NaN = Inr NaN"

fun math_log10 :: "pyfloat \<Rightarrow> pyerr + pyfloat" where
  "math_log10 (Fl x) = (if x \<le> 0 then Inl ValueError else Inr (Fl (log 10 x)))"
| "math_log10 NaN = Inr NaN"

subsection \<open>Exponentiation\<close>

text \<open>
  \<open>v ** w\<close> on floats, case by case as the Python 3 interpreter decides it (the
  cases for infinite operands do not arise):
  \<^item> \<open>v ** 0\<close> is 1, also for \<open>nan\<close>;
  \<^item> \<open>nan ** w\<close> is \<open>nan\<close>; \<open>v ** nan\<close> is \<open>nan\<close> unless \<open>v\<close> is 1;
  \<^item> \<open>0 ** w\<close> raises \<open>ZeroDivisionError\<close> for negative \<open>w\<close> and is 0 otherwise;
  \<^item> a negative base with a non-integral exponent is handed to the complex power,
    which returns \<open>|v|^w * (cos (pi * w) + i * sin (pi * w))\<close>;
  \<^item> a negative base with an integral exponent is \<open>|v|^w\<close>, negated when \<open>w\<close> is odd;
  \<^item> otherwise the real power.
\<close>

definition is_integral :: "real \<Rightarrow> bool" where
  "is_integral w = (w = of_int \<lfloor>w\<rfloor>)"

definition complex_pow_neg :: "real \<Rightarrow> real \<Rightarrow> complex" where
  "complex_pow_neg v w =
     Complex ((\<bar>v\<bar> powr w) * cos (pi * w)) ((\<bar>v\<bar> powr w) * sin (pi * w))"

fun float_pow :: "pyfloat \<Rightarrow> pyfloat \<Rightarrow> pyerr + pynum" where
  "float_pow (Fl v) (Fl w) =
     (if w = 0 then Inr (PFloat (Fl 1))
      else if v = 0 then
        (if w < 0 then Inl ZeroDivisionError else Inr (PFloat (Fl 0)))
      else if v < 0 then
        (if \<not> is_integral w then Inr (PComplex (complex_pow_neg v w))
         else if odd \<lfloor>w\<rfloor> then Inr (PFloat (Fl (- (\<bar>v\<bar> powr w))))
         else Inr (PFloat (Fl (\<bar>v\<bar> powr w))))
      else Inr (PFloat (Fl (v powr w))))"
| "float_pow NaN (Fl w) = (if w = 0 then Inr (PFloat (Fl 1)) else Inr (PFloat NaN))"
| "float_pow (Fl v) NaN = (if v = 1 then Inr (PFloat (Fl 1)) else Inr (PFloat NaN))"
| "float_pow NaN NaN = Inr (PFloat NaN)"

text \<open>
  Two uses of \<open>**\<close> in the script have a literal operand that fixes the result to be a
  float that cannot raise: the exponent 2 in \<open>D**2\<close>, \<open>Do**2\<close>, \<open>Sh**2\<close> and \<open>Sl**2\<close>,
  and the base 10 in \<open>10 ** (6.0 * B)\<close>.  They are modelled by the two functions
  below (and by the square of a real for the inputs \<open>D\<close> and \<open>Do\<close>), which are shown
  further down to be what \<open>float_pow\<close> returns at these operands.
\<close>

fun float_sq :: "pyfloat \<Rightarrow> pyfloat" where
  "float_sq (Fl x) = Fl (x\<^sup>2)"
| "float_sq NaN = NaN"

fun pow10 :: "pyfloat \<Rightarrow> pyfloat" where
  "pow10 (Fl y) = Fl (10 powr y)"
| "pow10 NaN = NaN"

section \<open>The script\<close>

subsection \<open>Helpers\<close>

text \<open>
  \<^verbatim>\<open>
  def safe_div(a, b, fallback=float("nan")):
      try:
          return a / b if b != 0 else fallback
      except Exception:
          return fallback
  \<close>
  The script calls it with the default fallback and once with \<open>None\<close>; the two
  uses differ in the type of the result, so each has its own constant.
\<close>

definition safe_div :: "pyfloat \<Rightarrow> pyfloat \<Rightarrow> pyfloat" where
  "safe_div a b =
     (if float_ne b (Fl 0)
      then (case float_div a b of Inr q \<Rightarrow> q | Inl e \<Rightarrow> NaN)
      else NaN)"

definition safe_div_None :: "pyfloat \<Rightarrow> pyfloat \<Rightarrow> pyfloat option" where
  "safe_div_None a b =
     (if float_ne b (Fl 0)
      then (case float_div a b of Inr q \<Rightarrow> Some q | Inl e \<Rightarrow> None)
      else None)"

text \<open>
  \<open>fmt\<close> prints the placeholder for \<open>None\<close> and for a float that is \<open>nan\<close> (or
  infinite); any other value, a complex number included, is printed as a number.
  These are the values that count as "not available".
\<close>

fun na_float :: "pyfloat \<Rightarrow> bool" where
  "na_float NaN = True"
| "na_float (Fl x) = False"

fun na_opt :: "pyfloat option \<Rightarrow> bool" where
  "na_opt None = True"
| "na_opt (Some x) = na_float x"

fun na_num :: "pynum option \<Rightarrow> bool" where
  "na_num None = True"
| "na_num (Some (PFloat x)) = na_float x"
| "na_num (Some (PComplex z)) = False"

subsection \<open>Inputs and results\<close>

record inputs =
  p :: real
  D :: real
  Do :: real
  d :: real
  dh :: real
  Sut :: real
  Syt :: real
  ka :: real
  kb :: real
  kc :: real
  kd :: real
  ke :: real
  kh :: real
  kl :: real
  km :: real

record results =
  t :: real
  Sh :: pyfloat
  Sl :: pyfloat
  Sc :: pyfloat
  Sa :: pyfloat
  Sm :: pyfloat
  Se :: real
  Sp :: "pyfloat option"
  Sq :: "pyfloat option"
  B :: "pyfloat option"
  A :: "pyfloat option"
  static_fos :: "pyfloat option"
  fatigue_fos :: "pyfloat option"
  life_cycles :: "pynum option"

subsection \<open>The statements\<close>

text \<open>\<open>Sc_term = Sh**2 + Sl**2 - Sh * Sl\<close>\<close>

definition calc_Sc_term :: "pyfloat \<Rightarrow> pyfloat \<Rightarrow> pyfloat" where
  "calc_Sc_term sh sl = float_sub (float_add (float_sq sh) (float_sq sl)) (float_mul sh sl)"

text \<open>\<open>Sc = math.sqrt(Sc_term) if Sc_term >= 0 else float("nan")\<close>\<close>

definition calc_Sc :: "pyfloat \<Rightarrow> pyerr + pyfloat" where
  "calc_Sc Sc_term = (if float_ge Sc_term (Fl 0) then math_sqrt Sc_term else Inr NaN)"

text \<open>
  \<^verbatim>\<open>
  Sp = None
  den_perm = safe_div(1.0, Se, None)
  if den_perm is not None and Sm != 0 and Sut != 0:
      den2 = Sa / (Sm * Sut)
      denom = den_perm + den2
      Sp = safe_div(1.0, denom)
  \<close>
\<close>

definition calc_Sp :: "real \<Rightarrow> pyfloat \<Rightarrow> pyfloat \<Rightarrow> real \<Rightarrow> pyerr + pyfloat option" where
  "calc_Sp se sa sm sut =
     (case safe_div_None (Fl 1) (Fl se) of
        None \<Rightarrow> Inr None
      | Some den_perm \<Rightarrow>
          if float_ne sm (Fl 0) \<and> sut \<noteq> 0
          then pybind (float_div sa (float_mul sm (Fl sut)))
                 (\<lambda>den2. Inr (Some (safe_div (Fl 1) (float_add den_perm den2))))
          else Inr None)"

text \<open>
  \<^verbatim>\<open>
  Sq = None
  if Sut != 0:
      Sq = safe_div(Sm, (1.0 - (Sa / Sut)))
  \<close>
\<close>

definition calc_Sq :: "pyfloat \<Rightarrow> pyfloat \<Rightarrow> real \<Rightarrow> pyerr + pyfloat option" where
  "calc_Sq sa sm sut =
     (if sut \<noteq> 0
      then pybind (float_div sa (Fl sut))
             (\<lambda>q. Inr (Some (safe_div sm (float_sub (Fl 1) q))))
      else Inr None)"

text \<open>
  \<^verbatim>\<open>
  B = None
  if Se > 0 and 0.9 * Sut > 0:
      B = (math.log10(Se) - math.log10(0.9 * Sut)) / 3.0
  \<close>
\<close>

definition calc_B :: "real \<Rightarrow> real \<Rightarrow> pyerr + pyfloat option" where
  "calc_B se sut =
     (if se > 0 \<and> 0.9 * sut > 0
      then pybind (math_log10 (Fl se)) (\<lambda>l1.
           pybind (math_log10 (Fl (0.9 * sut))) (\<lambda>l2.
           pybind (float_div (float_sub l1 l2) (Fl 3)) (\<lambda>b. Inr (Some b))))
      else Inr None)"

text \<open>
  \<^verbatim>\<open>
  A = None
  if B is not None:
      A = safe_div(Se, (10 ** (6.0 * B)))
  \<close>
\<close>

definition calc_A :: "real \<Rightarrow> pyfloat option \<Rightarrow> pyfloat option" where
  "calc_A se b_opt =
     (case b_opt of
        None \<Rightarrow> None
      | Some b \<Rightarrow> Some (safe_div (Fl se) (pow10 (float_mul (Fl 6) b))))"

text \<open>
  \<^verbatim>\<open>
  static_fos = None
  if Sp is not None and Sa not in (None, 0):
      static_fos = Sp / Sa
  \<close>
  \<open>Sa\<close> is a float, so the membership test is \<open>Sa == 0\<close>, which is false for \<open>nan\<close>.
\<close>

definition calc_static_fos :: "pyfloat option \<Rightarrow> pyfloat \<Rightarrow> pyerr + pyfloat option" where
  "calc_static_fos sp_opt sa =
     (case sp_opt of
        None \<Rightarrow> Inr None
      | Some sp \<Rightarrow>
          if \<not> float_eq sa (Fl 0)
          then pybind (float_div sp sa) (\<lambda>q. Inr (Some q))
          else Inr None)"

text \<open>
  \<^verbatim>\<open>
  fatigue_fos = None
  if Sq is not None and Sa not in (None, 0):
      fatigue_fos = Sq / Sa
  \<close>
\<close>

definition calc_fatigue_fos :: "pyfloat option \<Rightarrow> pyfloat \<Rightarrow> pyerr + pyfloat option" where
  "calc_fatigue_fos sq_opt sa =
     (case sq_opt of
        None \<Rightarrow> Inr None
      | Some sq \<Rightarrow>
          if \<not> float_eq sa (Fl 0)
          then pybind (float_div sq sa) (\<lambda>q. Inr (Some q))
          else Inr None)"

text \<open>
  \<^verbatim>\<open>
  life_cycles = None
  if A not in (None, 0) and B not in (None, 0) and Sq not in (None,):
      try:
          life_cycles = (Sq / A) ** (1.0 / B)
      except Exception:
          life_cycles = float("nan")
  \<close>
\<close>

definition calc_life_cycles ::
  "pyfloat option \<Rightarrow> pyfloat option \<Rightarrow> pyfloat option \<Rightarrow> pynum option" where
  "calc_life_cycles a_opt b_opt sq_opt =
     (case (a_opt, b_opt, sq_opt) of
        (Some a, Some b, Some sq) \<Rightarrow>
          if \<not> float_eq a (Fl 0) \<and> \<not> float_eq b (Fl 0)
          then (case pybind (float_div sq a) (\<lambda>base.
                     pybind (float_div (Fl 1) b) (\<lambda>ex. float_pow base ex)) of
                  Inr v \<Rightarrow> Some v
                | Inl e \<Rightarrow> Some (PFloat NaN))
          else None
      | _ \<Rightarrow> None)"

subsection \<open>The pipeline\<close>

text \<open>Lines 46 to 131 of the script, in order; \<open>i\<close> holds the values of the widgets.\<close>

definition compute :: "inputs \<Rightarrow> pyerr + results" where
  "compute i =
     (let t' = (Do i - D i) / 2;
          Sh' = safe_div (Fl (p i * (t' + 0.57 * D i))) (Fl (100 * t'));
          Sl' = safe_div (Fl (p i * (D i)\<^sup>2)) (Fl (100 * ((Do i)\<^sup>2 - (D i)\<^sup>2)));
          Sc_term = calc_Sc_term Sh' Sl'
      in pybind (calc_Sc Sc_term) (\<lambda>Sc'.
         let Sa' = safe_div Sc' (Fl 2);
             Sm' = safe_div Sc' (Fl 2);
             Se' = 0.5 * ka i * kb i * kc i * kd i * ke i * kh i * kl i * km i * Sut i
         in pybind (calc_Sp Se' Sa' Sm' (Sut i)) (\<lambda>Sp'.
            pybind (calc_Sq Sa' Sm' (Sut i)) (\<lambda>Sq'.
            pybind (calc_B Se' (Sut i)) (\<lambda>B'.
            let A' = calc_A Se' B'
            in pybind (calc_static_fos Sp' Sa') (\<lambda>static_fos'.
               pybind (calc_fatigue_fos Sq' Sa') (\<lambda>fatigue_fos'.
               Inr \<lparr> t = t', Sh = Sh', Sl = Sl', Sc = Sc', Sa = Sa', Sm = Sm',
                     Se = Se', Sp = Sp', Sq = Sq', B = B', A = A',
                     static_fos = static_fos', fatigue_fos = fatigue_fos',
                     life_cycles = calc_life_cycles A' B' Sq' \<rparr>)))))))"

text \<open>The default values of the widgets.\<close>

definition nominal :: inputs where
  "nominal = \<lparr> p = 207, D = 75, Do = 87, d = 35, dh = 9, Sut = 60, Syt = 50,
               ka = 0.75, kb = 1, kc = 0.814, kd = 1, ke = 1, kh = 1, kl = 0.85, km = 1 \<rparr>"

subsection \<open>Vocabulary of the properties\<close>

text \<open>Relative tolerance \<open>1e-6\<close> around a reference value \<open>v\<close>; \<open>nan\<close> is close to nothing.\<close>

definition within_tol :: "real \<Rightarrow> real \<Rightarrow> bool" where
  "within_tol v x = (\<bar>x - v\<bar> \<le> 1 / 1000000 * \<bar>v\<bar>)"

fun float_within_tol :: "real \<Rightarrow> pyfloat \<Rightarrow> bool" where
  "float_within_tol v (Fl x) = within_tol v x"
| "float_within_tol v NaN = False"

text \<open>An input at which the stress amplitude equals the ultimate strength.\<close>

definition boundary_input :: inputs where
  "boundary_input = nominal\<lparr>p := 200, D := 0, Do := 2, Sut := 1\<rparr>"

text \<open>A complex value with a nonzero imaginary part.\<close>

fun non_real :: "pynum option \<Rightarrow> bool" where
  "non_real (Some (PComplex z)) = (Im z \<noteq> 0)"
| "non_real _ = False"

text \<open>
  Two inputs at which the stress amplitude exceeds the ultimate strength: the default
  geometry under ten times the pressure, and the default load on a weak material.
\<close>

definition overstressed :: inputs where
  "overstressed = nominal\<lparr>p := 2000\<rparr>"

definition weak_material :: inputs where
  "weak_material = nominal\<lparr>Sut := 5\<rparr>"

section \<open>Basic facts about the model\<close>

subsection \<open>The literal uses of \<open>**\<close>\<close>

lemma float_pow_square: "float_pow x (Fl 2) = Inr (PFloat (float_sq x))"
proof (cases x)
  case (Fl v)
  have "is_integral 2" by (simp add: is_integral_def)
  moreover have "\<bar>v\<bar> powr 2 = v\<^sup>2" if "v \<noteq> 0" using that by simp
  moreover have "v powr 2 = v\<^sup>2" if "v > 0" using that by simp
  ultimately show ?thesis using Fl by (auto simp: not_less)
next
  case NaN
  then show ?thesis by simp
qed

lemma float_pow_ten: "float_pow (Fl 10) y = Inr (PFloat (pow10 y))"
  by (cases y) auto

subsection \<open>Guarded division and sequencing\<close>

lemma safe_div_simps [simp]:
  "safe_div a (Fl 0) = NaN"
  "safe_div a NaN = NaN"
  "safe_div NaN b = NaN"
  "y \<noteq> 0 \<Longrightarrow> safe_div (Fl x) (Fl y) = Fl (x / y)"
  by (cases a; cases b; simp add: safe_div_def float_ne_def)+

lemma pybind_simps [simp]:
  "pybind (Inr x) f = f x"
  "pybind (Inl e) f = Inl e"
  by (simp_all add: pybind_def)

subsection \<open>No statement of the script raises\<close>

text \<open>
  Every division, square root, logarithm and power of the model has its raising
  branch; the guards of the script keep each statement away from them.
\<close>

lemma calc_Sc_total: "\<exists>v. calc_Sc x = Inr v"
  by (cases x) (auto simp: calc_Sc_def)

lemma calc_Sp_total: "\<exists>v. calc_Sp se sa sm sut = Inr v"
  by (cases sa; cases sm) (auto simp: calc_Sp_def safe_div_None_def float_ne_def split: option.splits)

lemma calc_Sq_total: "\<exists>v. calc_Sq sa sm sut = Inr v"
  by (cases sa) (auto simp: calc_Sq_def)

lemma calc_B_total: "\<exists>v. calc_B se sut = Inr v"
  by (auto simp: calc_B_def)

lemma calc_static_fos_total: "\<exists>v. calc_static_fos s sa = Inr v"
  by (cases sa; cases s) (auto simp: calc_static_fos_def split: pyfloat.splits)

lemma calc_fatigue_fos_total: "\<exists>v. calc_fatigue_fos s sa = Inr v"
  by (cases sa; cases s) (auto simp: calc_fatigue_fos_def split: pyfloat.splits)

lemma compute_total: "\<exists>r. compute i = Inr r"
proof -
  define sc_term where "sc_term = calc_Sc_term
     (safe_div (Fl (p i * ((Do i - D i) / 2 + 0.57 * D i))) (Fl (100 * ((Do i - D i) / 2))))
     (safe_div (Fl (p i * (D i)\<^sup>2)) (Fl (100 * ((Do i)\<^sup>2 - (D i)\<^sup>2))))"
  obtain sc where sc: "calc_Sc sc_term = Inr sc" using calc_Sc_total by blast
  define se where "se = 0.5 * ka i * kb i * kc i * kd i * ke i * kh i * kl i * km i * Sut i"
  obtain sp where sp: "calc_Sp se (safe_div sc (Fl 2)) (safe_div sc (Fl 2)) (Sut i) = Inr sp"
    using calc_Sp_total by blast
  obtain sq where sq: "calc_Sq (safe_div sc (Fl 2)) (safe_div sc (Fl 2)) (Sut i) = Inr sq"
    using calc_Sq_total by blast
  obtain b where b: "calc_B se (Sut i) = Inr b" using calc_B_total by blast
  obtain sf where sf: "calc_static_fos sp (safe_div sc (Fl 2)) = Inr sf"
    using calc_static_fos_total by blast
  obtain ff where ff: "calc_fatigue_fos sq (safe_div sc (Fl 2)) = Inr ff"
    using calc_fatigue_fos_total by blast
  show ?thesis
    unfolding compute_def Let_def
    using sc sp sq b sf ff unfolding sc_term_def se_def by simp
qed

subsection \<open>The fields of a returned record\<close>

lemma pybind_Inr_iff: "pybind m f = Inr r \<longleftrightarrow> (\<exists>x. m = Inr x \<and> f x = Inr r)"
  by (cases m) simp_all

lemma compute_fields:
  assumes "compute i = Inr r"
  shows "t r = (Do i - D i) / 2"
    and "Sh r = safe_div (Fl (p i * (t r + 0.57 * D i))) (Fl (100 * t r))"
    and "Sl r = safe_div (Fl (p i * (D i)\<^sup>2)) (Fl (100 * ((Do i)\<^sup>2 - (D i)\<^sup>2)))"
    and "calc_Sc (calc_Sc_term (Sh r) (Sl r)) = Inr (Sc r)"
    and "Sa r = safe_div (Sc r) (Fl 2)"
    and "Sm r = safe_div (Sc r) (Fl 2)"
    and "Se r = 0.5 * ka i * kb i * kc i * kd i * ke i * kh i * kl i * km i * Sut i"
    and "calc_Sp (Se r) (Sa r) (Sm r) (Sut i) = Inr (Sp r)"
    and "calc_Sq (Sa r) (Sm r) (Sut i) = Inr (Sq r)"
    and "calc_B (Se r) (Sut i) = Inr (B r)"
    and "A r = calc_A (Se r) (B r)"
    and "calc_static_fos (Sp r) (Sa r) = Inr (static_fos r)"
    and "calc_fatigue_fos (Sq r) (Sa r) = Inr (fatigue_fos r)"
    and "life_cycles r = calc_life_cycles (A r) (B r) (Sq r)"
  using assms unfolding compute_def Let_def pybind_Inr_iff by auto

section \<open>The radicand of the combined stress\<close>

lemma radicand_nonneg: "0 \<le> a\<^sup>2 + b\<^sup>2 - a * (b::real)"
proof -
  have "a\<^sup>2 + b\<^sup>2 - a * b = (a - b / 2)\<^sup>2 + 3 / 4 * b\<^sup>2"
    by (simp add: power2_eq_square algebra_simps)
  then show ?thesis by simp
qed

text \<open>
  C10: whenever \<open>Sh\<close> and \<open>Sl\<close> are both real numbers, the radicand
  \<open>Sc_term = Sh\<^sup>2 + Sl\<^sup>2 - Sh * Sl\<close> is a nonnegative real (it is
  \<open>(Sh - Sl/2)\<^sup>2 + 3 Sl\<^sup>2 / 4\<close>), so the test \<open>Sc_term >= 0\<close> succeeds, the
  \<open>nan\<close> branch is not taken, and \<open>Sc\<close> is the real square root.
\<close>

theorem radicand_never_negative:
  assumes "map_sum id Sh (compute i) = Inr (Fl a)"
      and "map_sum id Sl (compute i) = Inr (Fl b)"
  shows "\<exists>r. compute i = Inr r
           \<and> calc_Sc_term (Sh r) (Sl r) = Fl (a\<^sup>2 + b\<^sup>2 - a * b)
           \<and> float_ge (calc_Sc_term (Sh r) (Sl r)) (Fl 0)
           \<and> Sc r = Fl (sqrt (a\<^sup>2 + b\<^sup>2 - a * b))
           \<and> \<not> na_float (Sc r)"
proof -
  obtain r where r: "compute i = Inr r" using compute_total by blast
  from assms r have sh: "Sh r = Fl a" and sl: "Sl r = Fl b" by simp_all
  have rad: "calc_Sc_term (Sh r) (Sl r) = Fl (a\<^sup>2 + b\<^sup>2 - a * b)"
    by (simp add: calc_Sc_term_def sh sl)
  have "calc_Sc (Fl (a\<^sup>2 + b\<^sup>2 - a * b)) = Inr (Fl (sqrt (a\<^sup>2 + b\<^sup>2 - a * b)))"
    using radicand_nonneg [of a b] by (simp add: calc_Sc_def)
  with compute_fields(4) [OF r] rad have "Sc r = Fl (sqrt (a\<^sup>2 + b\<^sup>2 - a * b))" by simp
  with r rad radicand_nonneg [of a b] show ?thesis by simp
qed

text \<open>The two stresses at the default inputs.\<close>

lemma nominal_Sh: "map_sum id Sh (compute nominal) = Inr (Fl (2691 / 160))"
proof -
  obtain r where r: "compute nominal = Inr r" using compute_total by blast
  have "Sh r = Fl (2691 / 160)"
    using compute_fields(1,2) [OF r] by (simp add: nominal_def)
  with r show ?thesis by simp
qed

lemma nominal_Sl: "map_sum id Sl (compute nominal) = Inr (Fl (575 / 96))"
proof -
  obtain r where r: "compute nominal = Inr r" using compute_total by blast
  have "Sl r = Fl (575 / 96)"
    using compute_fields(3) [OF r] by (simp add: nominal_def)
  with r show ?thesis by simp
qed

theorem radicand_never_negative_witness:
  "map_sum id Sh (compute nominal) = Inr (Fl (2691 / 160))
   \<and> map_sum id Sl (compute nominal) = Inr (Fl (575 / 96))
   \<and> (\<exists>r. compute nominal = Inr r
         \<and> float_ge (calc_Sc_term (Sh r) (Sl r)) (Fl 0)
         \<and> \<not> na_float (Sc r))"
  using radicand_never_negative [OF nominal_Sh nominal_Sl] nominal_Sh nominal_Sl by blast

section \<open>What the guarded statements return\<close>

lemma calc_B_eq:
  "calc_B se sut =
     Inr (if se > 0 \<and> 0.9 * sut > 0
          then Some (Fl ((log 10 se - log 10 (0.9 * sut)) / 3)) else None)"
  by (simp add: calc_B_def)

lemma calc_A_Some: "calc_A se (Some (Fl b)) = Some (Fl (se / 10 powr (6 * b)))"
  by (simp add: calc_A_def)

lemma calc_A_None: "calc_A se None = None"
  by (simp add: calc_A_def)

lemma calc_life_cycles_None [simp]:
  "calc_life_cycles None b sq = None"
  "calc_life_cycles a None sq = None"
  "calc_life_cycles a b None = None"
  by (simp_all add: calc_life_cycles_def split: option.splits)

lemma calc_life_cycles_nan: "na_opt sq \<Longrightarrow> na_num (calc_life_cycles a b sq)"
proof (cases sq)
  case None
  then show ?thesis by simp
next
  case (Some x)
  assume "na_opt sq"
  with Some have x: "x = NaN" by (cases x) simp_all
  show ?thesis
  proof (cases a)
    case None
    then show ?thesis by simp
  next
    case a: (Some av)
    show ?thesis
    proof (cases b)
      case None
      then show ?thesis by simp
    next
      case b: (Some bv)
      show ?thesis
        using Some x a b
        by (cases av; cases bv) (simp_all add: calc_life_cycles_def)
    qed
  qed
qed

lemma calc_Sp_nan: "calc_Sp se NaN NaN sut = Inr v \<Longrightarrow> na_opt v"
  by (auto simp: calc_Sp_def safe_div_None_def float_ne_def split: option.splits if_splits)

lemma calc_Sq_nan: "calc_Sq NaN sm sut = Inr v \<Longrightarrow> na_opt v"
  by (auto simp: calc_Sq_def split: if_splits)

lemma calc_static_fos_nan: "calc_static_fos s NaN = Inr v \<Longrightarrow> na_opt v"
  by (cases s) (auto simp: calc_static_fos_def)

lemma calc_fatigue_fos_nan: "calc_fatigue_fos s NaN = Inr v \<Longrightarrow> na_opt v"
  by (cases s) (auto simp: calc_fatigue_fos_def)

lemma calc_fatigue_fos_na: "na_opt s \<Longrightarrow> calc_fatigue_fos s sa = Inr v \<Longrightarrow> na_opt v"
  by (cases s; cases sa) (auto simp: calc_fatigue_fos_def split: if_splits pyfloat.splits)

lemma calc_Sq_boundary: "calc_Sq (Fl s) sm s = Inr v \<Longrightarrow> na_opt v"
  by (auto simp: calc_Sq_def split: if_splits)

section \<open>The Basquin slope\<close>

text \<open>
  C5: \<open>B\<close> is computed exactly when \<open>Se > 0\<close> and \<open>0.9 * Sut > 0\<close>, and is then
  \<open>(log10 Se - log10 (0.9 * Sut)) / 3\<close>; otherwise \<open>B\<close> is \<open>None\<close>, and \<open>A\<close> and
  \<open>life_cycles\<close> are not available either.
\<close>

theorem basquin_slope_guard:
  "\<exists>r. compute i = Inr r \<and>
     (if Se r > 0 \<and> 0.9 * Sut i > 0
      then B r = Some (Fl ((log 10 (Se r) - log 10 (0.9 * Sut i)) / 3)) \<and> \<not> na_opt (B r)
      else B r = None \<and> na_opt (B r) \<and> na_opt (A r) \<and> na_num (life_cycles r))"
proof -
  obtain r where r: "compute i = Inr r" using compute_total by blast
  have b: "B r = (if Se r > 0 \<and> 0.9 * Sut i > 0
          then Some (Fl ((log 10 (Se r) - log 10 (0.9 * Sut i)) / 3)) else None)"
    using compute_fields(10) [OF r] by (simp add: calc_B_eq)
  have "A r = calc_A (Se r) (B r)" "life_cycles r = calc_life_cycles (A r) (B r) (Sq r)"
    using compute_fields [OF r] by simp_all
  with b r show ?thesis by (auto simp: calc_A_None)
qed

theorem basquin_slope_guard_witness:
  "(\<exists>r. compute nominal = Inr r \<and> Se r > 0 \<and> 0.9 * Sut nominal > 0 \<and> \<not> na_opt (B r))
   \<and> (\<exists>r. compute (nominal\<lparr>Sut := 0\<rparr>) = Inr r \<and> \<not> 0.9 * Sut (nominal\<lparr>Sut := 0\<rparr>) > 0
          \<and> na_opt (B r) \<and> na_opt (A r) \<and> na_num (life_cycles r))"
proof -
  obtain r where r: "compute nominal = Inr r"
    and r': "if Se r > 0 \<and> 0.9 * Sut nominal > 0
      then B r = Some (Fl ((log 10 (Se r) - log 10 (0.9 * Sut nominal)) / 3)) \<and> \<not> na_opt (B r)
      else B r = None \<and> na_opt (B r) \<and> na_opt (A r) \<and> na_num (life_cycles r)"
    using basquin_slope_guard [of nominal] by blast
  have "Se r > 0" using compute_fields(7) [OF r] by (simp add: nominal_def)
  moreover have "0.9 * Sut nominal > 0" by (simp add: nominal_def)
  ultimately have 1: "\<exists>r. compute nominal = Inr r \<and> Se r > 0 \<and> 0.9 * Sut nominal > 0 \<and> \<not> na_opt (B r)"
    using r r' by auto
  have "\<not> 0.9 * Sut (nominal\<lparr>Sut := 0\<rparr>) > 0" by simp
  then have 2: "\<exists>r. compute (nominal\<lparr>Sut := 0\<rparr>) = Inr r \<and> \<not> 0.9 * Sut (nominal\<lparr>Sut := 0\<rparr>) > 0
          \<and> na_opt (B r) \<and> na_opt (A r) \<and> na_num (life_cycles r)"
    using basquin_slope_guard [of "nominal\<lparr>Sut := 0\<rparr>"] by auto
  from 1 2 show ?thesis by blast
qed

section \<open>The boundary \<open>Sa == Sut\<close>\<close>

text \<open>
  C6: when the pipeline returns with \<open>Sa == Sut\<close>, the denominator \<open>1 - Sa / Sut\<close>
  of \<open>Sq\<close> is zero and \<open>Sq\<close> is not available (\<open>nan\<close>, or \<open>None\<close> when both are
  zero), and so are \<open>fatigue_fos\<close> and \<open>life_cycles\<close>, which depend on it.
\<close>

theorem amplitude_equals_ultimate:
  assumes "map_sum id Sa (compute i) = Inr (Fl (Sut i))"
  shows "\<exists>r. compute i = Inr r \<and> float_eq (Sa r) (Fl (Sut i))
           \<and> na_opt (Sq r) \<and> na_opt (fatigue_fos r) \<and> na_num (life_cycles r)"
proof -
  obtain r where r: "compute i = Inr r" using compute_total by blast
  with assms have sa: "Sa r = Fl (Sut i)" by simp
  have "calc_Sq (Sa r) (Sm r) (Sut i) = Inr (Sq r)" using compute_fields [OF r] by simp
  then have sq: "na_opt (Sq r)" unfolding sa by (rule calc_Sq_boundary)
  have "calc_fatigue_fos (Sq r) (Sa r) = Inr (fatigue_fos r)" using compute_fields [OF r] by simp
  with sq have ff: "na_opt (fatigue_fos r)" by (rule calc_fatigue_fos_na)
  have "life_cycles r = calc_life_cycles (A r) (B r) (Sq r)" using compute_fields [OF r] by simp
  with sq have "na_num (life_cycles r)" by (simp add: calc_life_cycles_nan)
  with r sa sq ff show ?thesis by simp
qed

lemma boundary_Sa: "map_sum id Sa (compute boundary_input) = Inr (Fl (Sut boundary_input))"
proof -
  obtain r where r: "compute boundary_input = Inr r" using compute_total by blast
  have t: "t r = 1" using compute_fields(1) [OF r] by (simp add: boundary_input_def nominal_def)
  have sh: "Sh r = Fl 2" using compute_fields(2) [OF r] t by (simp add: boundary_input_def nominal_def)
  have sl: "Sl r = Fl 0" using compute_fields(3) [OF r] by (simp add: boundary_input_def nominal_def)
  have "calc_Sc (calc_Sc_term (Fl 2) (Fl 0)) = Inr (Fl 2)"
    by (simp add: calc_Sc_term_def calc_Sc_def)
  with compute_fields(4) [OF r] sh sl have "Sc r = Fl 2" by simp
  with compute_fields(5) [OF r] have "Sa r = Fl 1" by simp
  with r show ?thesis by (simp add: boundary_input_def nominal_def)
qed

theorem amplitude_equals_ultimate_witness:
  "map_sum id Sa (compute boundary_input) = Inr (Fl (Sut boundary_input))
   \<and> (\<exists>r. compute boundary_input = Inr r \<and> float_eq (Sa r) (Fl (Sut boundary_input))
           \<and> na_opt (Sq r) \<and> na_opt (fatigue_fos r) \<and> na_num (life_cycles r))"
  using amplitude_equals_ultimate [OF boundary_Sa] boundary_Sa by blast

section \<open>Inputs that no formula reads\<close>

text \<open>
  C8: two input records that agree on every field except \<open>d\<close>, \<open>dh\<close> and \<open>Syt\<close>
  give the same outcome of the pipeline: the same record with all its fourteen fields.
\<close>

theorem unused_inputs:
  assumes "p i = p j" "D i = D j" "Do i = Do j" "Sut i = Sut j"
      and "ka i = ka j" "kb i = kb j" "kc i = kc j" "kd i = kd j"
      and "ke i = ke j" "kh i = kh j" "kl i = kl j" "km i = km j"
  shows "compute i = compute j"
  unfolding compute_def using assms by simp

theorem unused_inputs_witness:
  "d (nominal\<lparr>d := 1, dh := 2, Syt := 3\<rparr>) \<noteq> d nominal
   \<and> dh (nominal\<lparr>d := 1, dh := 2, Syt := 3\<rparr>) \<noteq> dh nominal
   \<and> Syt (nominal\<lparr>d := 1, dh := 2, Syt := 3\<rparr>) \<noteq> Syt nominal
   \<and> compute (nominal\<lparr>d := 1, dh := 2, Syt := 3\<rparr>) = compute nominal"
proof -
  have "compute (nominal\<lparr>d := 1, dh := 2, Syt := 3\<rparr>) = compute nominal"
    by (rule unused_inputs) simp_all
  then show ?thesis by (simp add: nominal_def)
qed

section \<open>Zero wall thickness\<close>




section \<open>The reference scenario\<close>

lemma within_tol_between:
  "lo \<le> x \<Longrightarrow> x \<le> hi \<Longrightarrow> v - 1 / 1000000 * \<bar>v\<bar> \<le> lo \<Longrightarrow> hi \<le> v + 1 / 1000000 * \<bar>v\<bar>
     \<Longrightarrow> within_tol v x"
  unfolding within_tol_def by linarith

lemma not_within_tol_above:
  "lo \<le> x \<Longrightarrow> v + 1 / 1000000 * \<bar>v\<bar> < lo \<Longrightarrow> \<not> within_tol v x"
  unfolding within_tol_def by linarith

lemma default_load_fields:
  assumes "compute i = Inr r" and "p i = 207" "D i = 75" "Do i = 87"
  shows "t r = 6" "Sh r = Fl (2691 / 160)" "Sl r = Fl (575 / 96)"
    "Sc r = Fl (sqrt (50229079 / 230400))"
    "Sa r = Fl (sqrt (50229079 / 230400) / 2)"
    "Sm r = Fl (sqrt (50229079 / 230400) / 2)"
proof -
  note f = compute_fields [OF assms(1)]
  show t: "t r = 6" using f(1) assms by simp
  show sh: "Sh r = Fl (2691 / 160)" using f(2) t assms by simp
  show sl: "Sl r = Fl (575 / 96)" using f(3) assms by simp
  have "calc_Sc_term (Fl (2691 / 160)) (Fl (575 / 96)) = Fl (50229079 / 230400)"
    by (simp add: calc_Sc_term_def power2_eq_square)
  then have "calc_Sc (calc_Sc_term (Sh r) (Sl r)) = Inr (Fl (sqrt (50229079 / 230400)))"
    unfolding sh sl by (simp add: calc_Sc_def)
  with f(4) show sc: "Sc r = Fl (sqrt (50229079 / 230400))" by simp
  show "Sa r = Fl (sqrt (50229079 / 230400) / 2)" using f(5) sc by simp
  show "Sm r = Fl (sqrt (50229079 / 230400) / 2)" using f(6) sc by simp
qed

lemma nominal_fields:
  assumes "compute nominal = Inr r"
  shows "t r = 6" "Sh r = Fl (2691 / 160)" "Sl r = Fl (575 / 96)"
    "Sc r = Fl (sqrt (50229079 / 230400))"
    "Sa r = Fl (sqrt (50229079 / 230400) / 2)"
    "Sm r = Fl (sqrt (50229079 / 230400) / 2)"
    "Se r = 62271 / 4000"
proof -
  have h: "p nominal = 207" "D nominal = 75" "Do nominal = 87" by (simp_all add: nominal_def)
  note g = default_load_fields [OF assms h]
  show "t r = 6" "Sh r = Fl (2691 / 160)" "Sl r = Fl (575 / 96)"
    "Sc r = Fl (sqrt (50229079 / 230400))"
    "Sa r = Fl (sqrt (50229079 / 230400) / 2)"
    "Sm r = Fl (sqrt (50229079 / 230400) / 2)"
    by (rule g)+
  show "Se r = 62271 / 4000" using compute_fields(7) [OF assms] by (simp add: nominal_def)
qed

lemma nominal_Sc_bounds:
  "14765085 / 1000000 \<le> sqrt (50229079 / 230400)"
  "sqrt (50229079 / 230400) \<le> 14765113 / 1000000"
proof -
  show "14765085 / 1000000 \<le> sqrt (50229079 / 230400 :: real)"
    by (rule real_le_rsqrt) (simp add: power2_eq_square)
  show "sqrt (50229079 / 230400 :: real) \<le> 14765113 / 1000000"
    by (rule real_le_lsqrt) (simp_all add: power2_eq_square)
qed

text \<open>
  C2, as amended: at the default inputs the pipeline returns \<open>t = 6\<close>,
  \<open>Sh = 16.81875\<close>, \<open>Sl = 575/96\<close> (about 5.9895833), \<open>Sc\<close> about 14.765099,
  \<open>Sa = Sm\<close> about 7.3825496 and \<open>Se = 15.56775\<close>, each within relative tolerance
  \<open>1e-6\<close> of the value given here.
\<close>

theorem nominal_scenario:
  "\<exists>r. compute nominal = Inr r \<and> t r = 6
     \<and> Sh r = Fl 16.81875 \<and> float_within_tol 16.81875 (Sh r)
     \<and> float_within_tol 5.9895833 (Sl r)
     \<and> float_within_tol 14.765099 (Sc r)
     \<and> float_within_tol 7.3825496 (Sa r) \<and> Sm r = Sa r
     \<and> Se r = 15.56775 \<and> within_tol 15.56775 (Se r)"
proof -
  obtain r where r: "compute nominal = Inr r" using compute_total by blast
  note f = nominal_fields [OF r]
  note b = nominal_Sc_bounds
  have "within_tol 14.765099 (sqrt (50229079 / 230400))"
    by (rule within_tol_between [OF b]) simp_all
  then have "float_within_tol 14.765099 (Sc r)"
    unfolding f(4) by simp
  moreover have "within_tol 7.3825496 (sqrt (50229079 / 230400) / 2)"
    by (rule within_tol_between [of "73825425 / 10000000" _ "73825565 / 10000000"])
       (use b in simp_all)
  then have "float_within_tol 7.3825496 (Sa r)"
    unfolding f(5) by simp
  moreover have "float_within_tol 5.9895833 (Sl r)"
    unfolding f(3) by (simp add: within_tol_def)
  moreover have "Sh r = Fl 16.81875" "float_within_tol 16.81875 (Sh r)"
    unfolding f(2) by (simp_all add: within_tol_def)
  moreover have "Se r = 15.56775" "within_tol 15.56775 (Se r)"
    unfolding f(7) by (simp_all add: within_tol_def)
  ultimately show ?thesis using r f(1,5,6) by simp
qed

text \<open>
  The values first stated for the scenario (\<open>Sh\<close> 15.87, \<open>Sl\<close> 7.16, \<open>Sc\<close> 13.79, \<open>Sa = Sm\<close> 6.90,
  \<open>Se\<close> 15.57) are not within that tolerance of what the pipeline returns.
\<close>

theorem nominal_scenario_counterexample:
  "map_sum id (float_within_tol 15.87 \<circ> Sh) (compute nominal) = Inr False
   \<and> map_sum id (float_within_tol 7.16 \<circ> Sl) (compute nominal) = Inr False
   \<and> map_sum id (float_within_tol 13.79 \<circ> Sc) (compute nominal) = Inr False
   \<and> map_sum id (float_within_tol 6.90 \<circ> Sa) (compute nominal) = Inr False
   \<and> map_sum id (float_within_tol 6.90 \<circ> Sm) (compute nominal) = Inr False
   \<and> map_sum id (within_tol 15.57 \<circ> Se) (compute nominal) = Inr False"
proof -
  obtain r where r: "compute nominal = Inr r" using compute_total by blast
  note f = nominal_fields [OF r]
  note b = nominal_Sc_bounds
  have "\<not> float_within_tol 15.87 (Sh r)" unfolding f(2) by (simp add: within_tol_def)
  moreover have "\<not> float_within_tol 7.16 (Sl r)" unfolding f(3) by (simp add: within_tol_def)
  moreover have "\<not> within_tol 13.79 (sqrt (50229079 / 230400))"
    by (rule not_within_tol_above [OF b(1)]) simp
  then have "\<not> float_within_tol 13.79 (Sc r)"
    unfolding f(4) by simp
  moreover have half: "\<not> within_tol 6.90 (sqrt (50229079 / 230400) / 2)"
    by (rule not_within_tol_above [of "73825425 / 10000000"]) (use b(1) in simp_all)
  then have "\<not> float_within_tol 6.90 (Sa r)"
    unfolding f(5) by simp
  moreover from half have "\<not> float_within_tol 6.90 (Sm r)"
    unfolding f(6) by simp
  moreover have "\<not> within_tol 15.57 (Se r)" unfolding f(7) by (simp add: within_tol_def)
  ultimately show ?thesis using r by simp
qed

section \<open>Monotonicity in the pressure\<close>

lemma radicand_pos:
  fixes a b :: real
  assumes "b \<noteq> 0"
  shows "0 < a\<^sup>2 + b\<^sup>2 - a * b"
proof -
  have "a\<^sup>2 + b\<^sup>2 - a * b = (a - b / 2)\<^sup>2 + 3 / 4 * b\<^sup>2"
    by (simp add: power2_eq_square algebra_simps)
  moreover have "0 < 3 / 4 * b\<^sup>2" using assms by simp
  moreover have "0 \<le> (a - b / 2)\<^sup>2" by simp
  ultimately show ?thesis by linarith
qed

lemma stresses_linear_in_pressure:
  assumes r: "compute i = Inr r"
    and g: "D i < Do i" "Do i + D i \<noteq> 0"
  shows "Sh r = Fl (p i * (((Do i - D i) / 2 + 0.57 * D i) / (100 * ((Do i - D i) / 2))))"
    and "Sl r = Fl (p i * ((D i)\<^sup>2 / (100 * ((Do i)\<^sup>2 - (D i)\<^sup>2))))"
    and "Sc r = Fl (sqrt ((p i)\<^sup>2 *
            ((((Do i - D i) / 2 + 0.57 * D i) / (100 * ((Do i - D i) / 2)))\<^sup>2
             + ((D i)\<^sup>2 / (100 * ((Do i)\<^sup>2 - (D i)\<^sup>2)))\<^sup>2
             - (((Do i - D i) / 2 + 0.57 * D i) / (100 * ((Do i - D i) / 2)))
               * ((D i)\<^sup>2 / (100 * ((Do i)\<^sup>2 - (D i)\<^sup>2))))))"
proof -
  note f = compute_fields [OF r]
  define c1 where "c1 = ((Do i - D i) / 2 + 0.57 * D i) / (100 * ((Do i - D i) / 2))"
  define c2 where "c2 = (D i)\<^sup>2 / (100 * ((Do i)\<^sup>2 - (D i)\<^sup>2))"
  have t0: "100 * ((Do i - D i) / 2) \<noteq> 0" using g(1) by simp
  have "(Do i)\<^sup>2 - (D i)\<^sup>2 = (Do i - D i) * (Do i + D i)"
    by (simp add: power2_eq_square algebra_simps)
  then have d0: "100 * ((Do i)\<^sup>2 - (D i)\<^sup>2) \<noteq> 0" using g by simp
  have sh: "Sh r = Fl (p i * c1)"
    unfolding f(2) f(1) c1_def safe_div_simps(4) [OF t0] by simp
  have sl: "Sl r = Fl (p i * c2)"
    unfolding f(3) c2_def safe_div_simps(4) [OF d0] by simp
  have rad: "calc_Sc_term (Sh r) (Sl r) = Fl ((p i)\<^sup>2 * (c1\<^sup>2 + c2\<^sup>2 - c1 * c2))"
    unfolding sh sl by (simp add: calc_Sc_term_def power2_eq_square algebra_simps)
  have "0 \<le> (p i)\<^sup>2 * (c1\<^sup>2 + c2\<^sup>2 - c1 * c2)"
  proof -
    have "(p i)\<^sup>2 * (c1\<^sup>2 + c2\<^sup>2 - c1 * c2) = (p i * c1)\<^sup>2 + (p i * c2)\<^sup>2 - (p i * c1) * (p i * c2)"
      by (simp add: power2_eq_square algebra_simps)
    also have "0 \<le> \<dots>"
    proof -
      have "(p i * c1)\<^sup>2 + (p i * c2)\<^sup>2 - (p i * c1) * (p i * c2)
            = (p i * c1 - p i * c2 / 2)\<^sup>2 + 3 / 4 * (p i * c2)\<^sup>2"
        by (simp add: power2_eq_square algebra_simps)
      then show ?thesis by simp
    qed
    finally show ?thesis .
  qed
  then have "calc_Sc (calc_Sc_term (Sh r) (Sl r)) = Inr (Fl (sqrt ((p i)\<^sup>2 * (c1\<^sup>2 + c2\<^sup>2 - c1 * c2))))"
    unfolding rad by (simp add: calc_Sc_def)
  with f(4) have sc: "Sc r = Fl (sqrt ((p i)\<^sup>2 * (c1\<^sup>2 + c2\<^sup>2 - c1 * c2)))" by simp
  show "Sh r = Fl (p i * (((Do i - D i) / 2 + 0.57 * D i) / (100 * ((Do i - D i) / 2))))"
    using sh unfolding c1_def .
  show "Sl r = Fl (p i * ((D i)\<^sup>2 / (100 * ((Do i)\<^sup>2 - (D i)\<^sup>2))))"
    using sl unfolding c2_def .
  show "Sc r = Fl (sqrt ((p i)\<^sup>2 *
            ((((Do i - D i) / 2 + 0.57 * D i) / (100 * ((Do i - D i) / 2)))\<^sup>2
             + ((D i)\<^sup>2 / (100 * ((Do i)\<^sup>2 - (D i)\<^sup>2)))\<^sup>2
             - (((Do i - D i) / 2 + 0.57 * D i) / (100 * ((Do i - D i) / 2)))
               * ((D i)\<^sup>2 / (100 * ((Do i)\<^sup>2 - (D i)\<^sup>2))))))"
    using sc unfolding c1_def c2_def .
qed


text \<open>The two stresses as values of the pipeline.\<close>

lemma Sh_value:
  assumes "D i \<noteq> Do i"
  shows "map_sum id Sh (compute i)
           = Inr (Fl (p i * ((Do i - D i) / 2 + 0.57 * D i) / (100 * ((Do i - D i) / 2))))"
proof -
  obtain r where r: "compute i = Inr r" using compute_total by blast
  have t0: "100 * ((Do i - D i) / 2) \<noteq> 0" using assms by simp
  have "Sh r = Fl (p i * ((Do i - D i) / 2 + 0.57 * D i) / (100 * ((Do i - D i) / 2)))"
    unfolding compute_fields(2) [OF r] compute_fields(1) [OF r]
    by (rule safe_div_simps(4) [OF t0])
  with r show ?thesis by (simp only: map_sum.simps id_apply)
qed

lemma Sl_value:
  "map_sum id Sl (compute i)
     = Inr (safe_div (Fl (p i * (D i)\<^sup>2)) (Fl (100 * ((Do i)\<^sup>2 - (D i)\<^sup>2))))"
proof -
  obtain r where r: "compute i = Inr r" using compute_total by blast
  with compute_fields(3) [OF r] show ?thesis by simp
qed


section \<open>A negative base under a fractional exponent\<close>

text \<open>
  When the stress amplitude exceeds the ultimate strength, \<open>Sq\<close> is negative while
  \<open>A\<close> is positive, so the base \<open>Sq / A\<close> of the life-cycle power is negative.  At the
  default K-factors the exponent \<open>1 / B\<close> lies strictly between \<open>- 6\<close> and \<open>- 5\<close>.
\<close>

lemma not_integral_between:
  assumes "of_int n < w" "w < of_int n + 1"
  shows "\<not> is_integral w"
proof -
  have "\<lfloor>w\<rfloor> = n" using assms by (simp add: floor_eq_iff)
  with assms(1) show ?thesis by (simp add: is_integral_def)
qed

lemma nominal_ratio_log_bounds:
  "- (3 / 5) < log 10 (6919 / 24000 :: real)" "log 10 (6919 / 24000 :: real) < - (1 / 2)"
proof -
  have "((10::real) powr - (3 / 5)) ^ 5 = 10 powr - 3"
    by (simp add: powr_power)
  also have "\<dots> = 1 / 1000" by (simp add: powr_neg_numeral)
  also have "\<dots> < (6919 / 24000 :: real) ^ 5" by (simp add: power_divide)
  finally have "(10::real) powr - (3 / 5) < 6919 / 24000"
    by (rule power_less_imp_less_base) simp
  then show "- (3 / 5) < log 10 (6919 / 24000 :: real)"
    by (simp add: less_log_iff)
  have "(6919 / 24000 :: real) ^ 2 < 1 / 10" by (simp add: power_divide)
  also have "\<dots> = 10 powr - 1" by (simp add: powr_neg_numeral)
  also have "\<dots> = ((10::real) powr - (1 / 2)) ^ 2" by (simp add: powr_power)
  finally have "(6919 / 24000 :: real) < 10 powr - (1 / 2)"
    by (rule power_less_imp_less_base) simp
  then show "log 10 (6919 / 24000 :: real) < - (1 / 2)"
    by (simp add: log_less_iff)
qed

lemma nominal_exponent_fractional:
  fixes l :: real
  assumes "- (3 / 5) < l" "l < - (1 / 2)"
  shows "\<not> is_integral (1 / (l / 3))" "l / 3 \<noteq> 0"
proof -
  have neg: "l < 0" using assms by simp
  have a: "3 / l < -5" using assms neg by (simp add: divide_less_eq)
  have b: "-6 < 3 / l" using assms neg by (simp add: less_divide_eq)
  have "\<not> is_integral (3 / l)"
    by (rule not_integral_between [of "-6"]) (use a b in simp_all)
  then show "\<not> is_integral (1 / (l / 3))" by simp
  show "l / 3 \<noteq> 0" using neg by simp
qed

lemma complex_pow_neg_Im:
  assumes "v \<noteq> 0" "\<not> is_integral w"
  shows "Im (complex_pow_neg v w) \<noteq> 0"
proof -
  have "w \<notin> \<int>" using assms(2) by (auto simp: is_integral_def elim: Ints_cases)
  then have "sin (w * pi) \<noteq> 0" by (simp add: sin_times_pi_eq_0)
  moreover have "\<bar>v\<bar> powr w \<noteq> 0" using assms(1) by simp
  ultimately show ?thesis by (simp add: complex_pow_neg_def mult.commute)
qed

lemma calc_life_cycles_attempted:
  "calc_life_cycles a_opt b_opt sq_opt \<noteq> None \<longleftrightarrow>
     (\<exists>a b sq. a_opt = Some a \<and> b_opt = Some b \<and> sq_opt = Some sq
        \<and> \<not> float_eq a (Fl 0) \<and> \<not> float_eq b (Fl 0))"
  by (cases a_opt; cases b_opt; cases sq_opt)
     (auto simp: calc_life_cycles_def split: sum.splits)

lemma calc_life_cycles_negative_base:
  assumes "a \<noteq> 0" "b \<noteq> 0" "sq / a < 0" "\<not> is_integral (1 / b)"
  shows "calc_life_cycles (Some (Fl a)) (Some (Fl b)) (Some (Fl sq))
           = Some (PComplex (complex_pow_neg (sq / a) (1 / b)))"
proof -
  have "sq \<noteq> 0" using assms(3) by auto
  with assms show ?thesis by (simp add: calc_life_cycles_def)
qed

lemma life_cycles_negative_base:
  assumes "compute i = Inr r"
    and "Sq r = Some (Fl sq)" "A r = Some (Fl a)" "B r = Some (Fl b)"
    and "a \<noteq> 0" "b \<noteq> 0" "sq / a < 0" "\<not> is_integral (1 / b)"
  shows "life_cycles r = Some (PComplex (complex_pow_neg (sq / a) (1 / b)))"
    and "non_real (life_cycles r)" and "\<not> na_num (life_cycles r)"
proof -
  show lc: "life_cycles r = Some (PComplex (complex_pow_neg (sq / a) (1 / b)))"
    unfolding compute_fields(14) [OF assms(1)] assms(2,3,4)
    using assms(5-8) by (rule calc_life_cycles_negative_base)
  have "Im (complex_pow_neg (sq / a) (1 / b)) \<noteq> 0"
    by (rule complex_pow_neg_Im) (use assms(7,8) in auto)
  then show "non_real (life_cycles r)" unfolding lc by simp
  show "\<not> na_num (life_cycles r)" unfolding lc by simp
qed

lemma overstress_values:
  assumes r: "compute i = Inr r"
    and sa: "Sa r = Fl s" and sut: "0 < Sut i" "Sut i < s"
    and se: "0 < Se r"
    and l: "- (3 / 5) < log 10 (Se r) - log 10 (0.9 * Sut i)"
           "log 10 (Se r) - log 10 (0.9 * Sut i) < - (1 / 2)"
  shows "\<exists>sq a b. Sq r = Some (Fl sq) \<and> A r = Some (Fl a) \<and> B r = Some (Fl b)
           \<and> a \<noteq> 0 \<and> b \<noteq> 0 \<and> sq / a < 0 \<and> \<not> is_integral (1 / b)"
proof -
  note f = compute_fields [OF r]
  define den where "den = 1 - s / Sut i"
  have den: "den < 0" using sut by (simp add: den_def)
  have sm: "Sm r = Fl s" using f(5,6) sa by simp
  have "calc_Sq (Fl s) (Fl s) (Sut i) = Inr (Some (Fl (s / den)))"
    using sut den by (simp add: calc_Sq_def den_def)
  with f(9) sa sm have sq: "Sq r = Some (Fl (s / den))" by simp
  define b where "b = (log 10 (Se r) - log 10 (0.9 * Sut i)) / 3"
  have bv: "B r = Some (Fl b)" using f(10) se sut by (simp add: calc_B_eq b_def)
  define a where "a = Se r / 10 powr (6 * b)"
  have av: "A r = Some (Fl a)" using f(11) bv by (simp add: calc_A_Some a_def)
  have a_pos: "0 < a" using se by (simp add: a_def)
  have "s / den < 0" using sut den by (simp add: divide_neg_pos divide_pos_neg field_simps)
  then have base: "(s / den) / a < 0" using a_pos by (rule divide_neg_pos)
  have frac: "\<not> is_integral (1 / b)" and b0: "b \<noteq> 0"
    unfolding b_def using nominal_exponent_fractional [OF l] by simp_all
  from sq av bv a_pos b0 base frac show ?thesis by auto
qed

lemma life_cycles_overstress:
  assumes r: "compute i = Inr r"
    and sa: "Sa r = Fl s" and sut: "0 < Sut i" "Sut i < s"
    and se: "0 < Se r"
    and l: "- (3 / 5) < log 10 (Se r) - log 10 (0.9 * Sut i)"
           "log 10 (Se r) - log 10 (0.9 * Sut i) < - (1 / 2)"
  shows "\<not> na_num (life_cycles r) \<and> non_real (life_cycles r)"
proof -
  obtain sq a b where v: "Sq r = Some (Fl sq)" "A r = Some (Fl a)" "B r = Some (Fl b)"
    "a \<noteq> 0" "b \<noteq> 0" "sq / a < 0" "\<not> is_integral (1 / b)"
    using overstress_values [OF assms] by blast
  from life_cycles_negative_base(2,3) [OF r v] show ?thesis by simp
qed

lemma nominal_log_ratio:
  assumes "se / (0.9 * sut) = 6919 / 24000" "0 < se" "0 < (sut::real)"
  shows "- (3 / 5) < log 10 se - log 10 (0.9 * sut)"
        "log 10 se - log 10 (0.9 * sut) < - (1 / 2)"
proof -
  have "log 10 se - log 10 (0.9 * sut) = log 10 (se / (0.9 * sut))"
    by (rule log_divide_pos [symmetric]) (use assms(2,3) in simp_all)
  also have "\<dots> = log 10 (6919 / 24000)"
    by (simp only: assms(1))
  finally have eq: "log 10 se - log 10 (0.9 * sut) = log 10 (6919 / 24000)" .
  show "- (3 / 5) < log 10 se - log 10 (0.9 * sut)"
    unfolding eq by (rule nominal_ratio_log_bounds)
  show "log 10 se - log 10 (0.9 * sut) < - (1 / 2)"
    unfolding eq by (rule nominal_ratio_log_bounds)
qed

lemma overstressed_facts:
  assumes r: "compute overstressed = Inr r"
  shows "Sa r = Fl (sqrt (59344375 / 2916) / 2)"
    and "0 < Sut overstressed"
    and "Sut overstressed < sqrt (59344375 / 2916) / 2"
    and "0 < Se r"
    and "- (3 / 5) < log 10 (Se r) - log 10 (0.9 * Sut overstressed)"
    and "log 10 (Se r) - log 10 (0.9 * Sut overstressed) < - (1 / 2)"
proof -
  note f = compute_fields [OF r]
  have t: "t r = 6" using f(1) by (simp add: overstressed_def nominal_def)
  have sh: "Sh r = Fl (325 / 2)" using f(2) t by (simp add: overstressed_def nominal_def)
  have sl: "Sl r = Fl (3125 / 54)" using f(3) by (simp add: overstressed_def nominal_def)
  have "calc_Sc_term (Fl (325 / 2)) (Fl (3125 / 54)) = Fl (59344375 / 2916)"
    by (simp add: calc_Sc_term_def power2_eq_square)
  then have "calc_Sc (calc_Sc_term (Sh r) (Sl r)) = Inr (Fl (sqrt (59344375 / 2916)))"
    unfolding sh sl by (simp add: calc_Sc_def)
  with f(4) have sc: "Sc r = Fl (sqrt (59344375 / 2916))" by simp
  show "Sa r = Fl (sqrt (59344375 / 2916) / 2)" using f(5) sc by simp
  show "0 < Sut overstressed" by (simp add: overstressed_def nominal_def)
  have "(121::real) \<le> sqrt (59344375 / 2916)" by (rule real_le_rsqrt) simp
  then show "Sut overstressed < sqrt (59344375 / 2916) / 2"
    by (simp add: overstressed_def nominal_def)
  have se: "Se r = 62271 / 4000" using f(7) by (simp add: overstressed_def nominal_def)
  then show "0 < Se r" by simp
  show "- (3 / 5) < log 10 (Se r) - log 10 (0.9 * Sut overstressed)"
       "log 10 (Se r) - log 10 (0.9 * Sut overstressed) < - (1 / 2)"
    by (rule nominal_log_ratio; simp add: se overstressed_def nominal_def)+
qed

text \<open>
  C4: \<open>life_cycles\<close> is to be not available whenever the base \<open>Sq / A\<close> is negative
  and the exponent \<open>1 / B\<close> fractional.  The script does not do that: at the default
  inputs under a pressure of 2000 the power does not raise, it returns a complex
  number with a nonzero imaginary part, which the \<open>except\<close> clause never sees and
  \<open>fmt\<close> prints as a number.
\<close>

theorem life_cycles_complex_when_overstressed:
  "map_sum id (na_num \<circ> life_cycles) (compute overstressed) = Inr False
   \<and> map_sum id (non_real \<circ> life_cycles) (compute overstressed) = Inr True"
proof -
  obtain r where r: "compute overstressed = Inr r" using compute_total by blast
  have "\<not> na_num (life_cycles r) \<and> non_real (life_cycles r)"
    by (rule life_cycles_overstress [OF r overstressed_facts [OF r]])
  with r show ?thesis by simp
qed

lemma weak_material_facts:
  assumes r: "compute weak_material = Inr r"
  shows "Sa r = Fl (sqrt (50229079 / 230400) / 2)"
    and "0 < Sut weak_material"
    and "Sut weak_material < sqrt (50229079 / 230400) / 2"
    and "0 < Se r"
    and "- (3 / 5) < log 10 (Se r) - log 10 (0.9 * Sut weak_material)"
    and "log 10 (Se r) - log 10 (0.9 * Sut weak_material) < - (1 / 2)"
proof -
  show "Sa r = Fl (sqrt (50229079 / 230400) / 2)"
    by (rule default_load_fields(5) [OF r]) (simp_all add: weak_material_def nominal_def)
  show "0 < Sut weak_material" by (simp add: weak_material_def nominal_def)
  show "Sut weak_material < sqrt (50229079 / 230400) / 2"
    using nominal_Sc_bounds(1) by (simp add: weak_material_def nominal_def)
  have se: "Se r = 20757 / 16000"
    using compute_fields(7) [OF r] by (simp add: weak_material_def nominal_def)
  then show "0 < Se r" by simp
  show "- (3 / 5) < log 10 (Se r) - log 10 (0.9 * Sut weak_material)"
       "log 10 (Se r) - log 10 (0.9 * Sut weak_material) < - (1 / 2)"
    by (rule nominal_log_ratio; simp add: se weak_material_def nominal_def)+
qed

text \<open>
  C1: the pipeline is to return a complete record for every input, its undefined
  fields marked as not available, and never to raise.  It returns a record for every
  input (\<open>compute_total\<close>), but not every undefined field of it is marked: at the
  default inputs with \<open>Sut = 5\<close> the field \<open>life_cycles\<close>, a fractional power of a
  negative base, holds a complex number with a nonzero imaginary part and not the
  placeholder.
\<close>

theorem undefined_field_not_marked:
  "map_sum id (na_num \<circ> life_cycles) (compute weak_material) = Inr False
   \<and> map_sum id (non_real \<circ> life_cycles) (compute weak_material) = Inr True"
proof -
  obtain r where r: "compute weak_material = Inr r" using compute_total by blast
  have "\<not> na_num (life_cycles r) \<and> non_real (life_cycles r)"
    by (rule life_cycles_overstress [OF r weak_material_facts [OF r]])
  with r show ?thesis by simp
qed

section \<open>Further properties of the pipeline\<close>

text \<open>
  X1: in exact arithmetic the pipeline returns a result record for every input
  record: no division, square root, logarithm or power of the script raises, whatever
  the inputs (zero thickness, zero strength and all-zero K-factors included).
\<close>

theorem pipeline_never_raises: "\<exists>r. compute i = Inr r"
  by (rule compute_total)

text \<open>
  X2: the life-cycle power is attempted exactly when \<open>A\<close> and \<open>B\<close> are not \<open>None\<close>
  and not zero and \<open>Sq\<close> is not \<open>None\<close>; otherwise \<open>life_cycles\<close> stays \<open>None\<close>.
\<close>

theorem life_cycles_attempt_guard:
  "calc_life_cycles a_opt b_opt sq_opt \<noteq> None \<longleftrightarrow>
     (\<exists>a b sq. a_opt = Some a \<and> b_opt = Some b \<and> sq_opt = Some sq
        \<and> \<not> float_eq a (Fl 0) \<and> \<not> float_eq b (Fl 0))"
  by (rule calc_life_cycles_attempted)

text \<open>
  X3: whenever the pipeline returns with a negative base \<open>Sq / A\<close> and a fractional
  exponent \<open>1 / B\<close>, the field \<open>life_cycles\<close> is the complex power: a value with a
  nonzero imaginary part, which is neither \<open>nan\<close> nor \<open>None\<close>.
\<close>

theorem negative_base_gives_complex:
  assumes "compute i = Inr r"
    and "Sq r = Some (Fl sq)" "A r = Some (Fl a)" "B r = Some (Fl b)"
    and "a \<noteq> 0" "b \<noteq> 0" "sq / a < 0" "\<not> is_integral (1 / b)"
  shows "life_cycles r = Some (PComplex (complex_pow_neg (sq / a) (1 / b)))
         \<and> non_real (life_cycles r) \<and> \<not> na_num (life_cycles r)"
  using life_cycles_negative_base [OF assms] by simp

theorem negative_base_gives_complex_witness:
  "\<exists>r sq a b. compute overstressed = Inr r
     \<and> Sq r = Some (Fl sq) \<and> A r = Some (Fl a) \<and> B r = Some (Fl b)
     \<and> a \<noteq> 0 \<and> b \<noteq> 0 \<and> sq / a < 0 \<and> \<not> is_integral (1 / b)
     \<and> life_cycles r = Some (PComplex (complex_pow_neg (sq / a) (1 / b)))
     \<and> non_real (life_cycles r) \<and> \<not> na_num (life_cycles r)"
proof -
  obtain r where r: "compute overstressed = Inr r" using compute_total by blast
  obtain sq a b where v: "Sq r = Some (Fl sq)" "A r = Some (Fl a)" "B r = Some (Fl b)"
    "a \<noteq> 0" "b \<noteq> 0" "sq / a < 0" "\<not> is_integral (1 / b)"
    using overstress_values [OF r overstressed_facts [OF r]] by blast
  from negative_base_gives_complex [OF r v] r v show ?thesis by blast
qed

end
